theory Spec2Isabelle
  imports Main "HOL-Library.Word" "HOL-Library.Monad_Syntax"
begin

section \<open>The no-op BPF program: data model\<close>

text \<open>
  The program is \<^verbatim>\<open>programs/bpf/c/src/noop.c\<close>: one exported function,
  \<^verbatim>\<open>entrypoint\<close>, that logs its file name, deserializes the input buffer
  into one destination slot, and on success logs the tick height and the parameters.
  The header \<^verbatim>\<open>solana_sdk.h\<close> (the struct declarations, the macro
  \<^verbatim>\<open>SOL_ARRAY_SIZE\<close>, \<^verbatim>\<open>sol_deserialize\<close> and the three loggers) is
  not among the source files.

  The input pointer \<^verbatim>\<open>const uint8_t *input\<close> is modelled by the bytes of the
  buffer it points to. A pointer into that buffer (\<^verbatim>\<open>const uint8_t *data\<close>) is
  the offset of its first byte from the start of the buffer. The \<^verbatim>\<open>uint64_t\<close>
  locals are carried as natural numbers: the entrypoint does no arithmetic on them.
\<close>

type_synonym uint8_t = "8 word"

text \<open>
  Modelled from the spec: the struct \<^verbatim>\<open>SolKeyedAccounts\<close> is declared in the
  missing header. Its fields are the attributes the spec gives a KeyedAccount: flag bytes
  (the mutable/immutable flag), a public key, an owner key, a balance counter, and a
  borrowed data slice (offset into the input buffer, and length).
\<close>

record SolKeyedAccounts =
  acct_flags :: "uint8_t list"
  acct_key :: "uint8_t list"
  acct_owner :: "uint8_t list"
  acct_balance :: nat
  acct_data :: nat
  acct_data_len :: nat

text \<open>
  The source reads one field of \<^verbatim>\<open>SolClusterInfo\<close>: \<^verbatim>\<open>info.tick_height\<close>.
\<close>

record SolClusterInfo =
  tick_height :: nat

text \<open>
  A slot of the destination array \<^verbatim>\<open>SolKeyedAccounts ka[1]\<close>. The array is a
  local that the entrypoint never initialises: \<open>None\<close> is a slot nobody has written.
\<close>

type_synonym ka_slot = "SolKeyedAccounts option"

text \<open>
  The locations \<^verbatim>\<open>sol_deserialize\<close> writes through its pointer arguments
  \<^verbatim>\<open>ka, &ka_len, &data, &data_len, &info\<close>, as they stand when the call returns.
\<close>

record deserialized =
  ka_out :: "ka_slot list"
  ka_len :: nat
  data :: nat
  data_len :: nat
  info :: SolClusterInfo

text \<open>
  The external function \<^verbatim>\<open>sol_deserialize(input, ka, ka_len_max, ...)\<close> as the
  entrypoint sees it: from the input buffer, the destination array and its capacity to
  the returned boolean and the written locations.
\<close>

type_synonym deserializer =
  "uint8_t list \<Rightarrow> ka_slot list \<Rightarrow> nat \<Rightarrow> bool \<times> deserialized"

text \<open>
  The calls the entrypoint makes to its external collaborators, in order. The call of
  \<^verbatim>\<open>sol_deserialize\<close> is recorded with the capacity passed and the boolean
  returned.
\<close>

datatype event =
    SolLog string
  | SolDeserialize nat bool
  | SolLog64 nat nat nat nat nat
  | SolLogParams "ka_slot list" nat nat nat

section \<open>The entrypoint\<close>

text \<open>
  \<^verbatim>\<open>__FILE__\<close> expands to the path the compiler was given; the path of the file
  in the repository stands for it.
\<close>

definition FILE :: string where
  "FILE = ''programs/bpf/c/src/noop.c''"

text \<open>
  Modelled from the spec: the macro \<^verbatim>\<open>SOL_ARRAY_SIZE\<close> is defined in the missing
  header. The spec calls its value the caller-supplied capacity of the destination array:
  the number of its slots.
\<close>

definition SOL_ARRAY_SIZE :: "'a list \<Rightarrow> nat" where
  "SOL_ARRAY_SIZE a = length a"

text \<open>
  \<^verbatim>\<open>
  extern bool entrypoint(const uint8_t *input) {
    SolKeyedAccounts ka[1];
    uint64_t ka_len;
    const uint8_t *data;
    uint64_t data_len;
    SolClusterInfo info;

    sol_log(__FILE__);

    if (!sol_deserialize(input, ka, SOL_ARRAY_SIZE(ka), &ka_len, &data, &data_len, &info)) {
      return false;
    }
    sol_log_64(info.tick_height, 0, 0, 0, 0);
    sol_log_params(ka, ka_len, data, data_len);
    return true;
  }
  \<close>
  The result is the list of calls made and the boolean returned to the host.
\<close>

definition entrypoint :: "deserializer \<Rightarrow> uint8_t list \<Rightarrow> event list \<times> bool" where
  "entrypoint deserialize input =
     (let ka = replicate 1 None;
          t0 = [SolLog FILE];
          (ok, out) = deserialize input ka (SOL_ARRAY_SIZE ka);
          t1 = t0 @ [SolDeserialize (SOL_ARRAY_SIZE ka) ok]
      in if \<not> ok then (t1, False)
         else (t1 @ [SolLog64 (tick_height (info out)) 0 0 0 0,
                     SolLogParams (ka_out out) (ka_len out) (data out) (data_len out)],
               True))"

section \<open>The deserializer, from the spec\<close>

text \<open>
  Modelled from the spec: the binary layout of the input buffer is a protocol of the
  host, and the spec leaves its field widths and its padding convention to the host's
  serializer. They are the parameters of the model: the width in bytes of the leading
  count field, of the flag bytes, of a key (public key and owner key), of the balance
  counter, of a data-length field (an account's and the instruction's), the number of
  padding bytes that follow \<open>n\<close> bytes of inline account data starting at offset
  \<open>off\<close> (\<open>padding L off n\<close>), and the width of the trailing cluster-info record.
\<close>

record layout =
  count_size :: nat
  flags_size :: nat
  key_size :: nat
  balance_size :: nat
  len_size :: nat
  padding :: "nat \<Rightarrow> nat \<Rightarrow> nat"
  info_size :: nat

text \<open>
  Modelled from the spec: the spec does not give the byte order of the integer fields;
  they are read least significant byte first.
\<close>

fun le_nat :: "uint8_t list \<Rightarrow> nat" where
  "le_nat [] = 0"
| "le_nat (b # bs) = unat b + 256 * le_nat bs"

text \<open>
  Modelled from the spec: a read of \<open>n\<close> bytes at offset \<open>off\<close> that would pass the
  end of the buffer is refused (failure conditions (b) and (c) of the deserializer's
  contract).
\<close>

definition read_bytes :: "uint8_t list \<Rightarrow> nat \<Rightarrow> nat \<Rightarrow> uint8_t list option" where
  "read_bytes buf off n =
     (if off + n \<le> length buf then Some (take n (drop off buf)) else None)"

text \<open>
  Modelled from the spec: one account record at offset \<open>off\<close>: flag bytes, a public
  key, an owner key, a balance counter, a data-length field, and the inline data with its
  padding. The data is not copied: the account borrows the slice. The result is the
  account and the offset of the byte after the record.
\<close>

definition read_account ::
  "layout \<Rightarrow> uint8_t list \<Rightarrow> nat \<Rightarrow> (SolKeyedAccounts \<times> nat) option" where
  "read_account L buf off = do {
     fl \<leftarrow> read_bytes buf off (flags_size L);
     let o1 = off + flags_size L;
     k \<leftarrow> read_bytes buf o1 (key_size L);
     let o2 = o1 + key_size L;
     ow \<leftarrow> read_bytes buf o2 (key_size L);
     let o3 = o2 + key_size L;
     bal \<leftarrow> read_bytes buf o3 (balance_size L);
     let o4 = o3 + balance_size L;
     dl \<leftarrow> read_bytes buf o4 (len_size L);
     let o5 = o4 + len_size L;
     let n = le_nat dl;
     _ \<leftarrow> read_bytes buf o5 (n + padding L o5 n);
     Some (\<lparr>acct_flags = fl, acct_key = k, acct_owner = ow, acct_balance = le_nat bal,
            acct_data = o5, acct_data_len = n\<rparr>,
           o5 + n + padding L o5 n)
   }"

text \<open>
  Modelled from the spec: the loop over the account records: \<open>n\<close> records are still
  to be read, the next one goes to slot \<open>i\<close> of the destination array and starts at
  offset \<open>off\<close>.
\<close>

fun read_accounts ::
  "layout \<Rightarrow> uint8_t list \<Rightarrow> nat \<Rightarrow> nat \<Rightarrow> nat \<Rightarrow> ka_slot list \<Rightarrow> (ka_slot list \<times> nat) option" where
  "read_accounts L buf 0 i off ka = Some (ka, off)"
| "read_accounts L buf (Suc n) i off ka =
     (case read_account L buf off of
        None \<Rightarrow> None
      | Some (a, off') \<Rightarrow> read_accounts L buf n (Suc i) off' (ka[i := Some a]))"

text \<open>
  Modelled from the spec: what the caller's locations hold after a failed call. The spec
  leaves them unspecified but inert; the model leaves the array as it was and reports
  nothing.
\<close>

definition nothing_written :: "ka_slot list \<Rightarrow> deserialized" where
  "nothing_written ka =
     \<lparr>ka_out = ka, ka_len = 0, data = 0, data_len = 0, info = \<lparr>tick_height = 0\<rparr>\<rparr>"

text \<open>
  Modelled from the spec: the account count the buffer encodes: its leading count field.
\<close>

definition encoded_count :: "layout \<Rightarrow> uint8_t list \<Rightarrow> nat option" where
  "encoded_count L input = map_option le_nat (read_bytes input 0 (count_size L))"

text \<open>
  Modelled from the spec: the function \<^verbatim>\<open>sol_deserialize\<close> is defined in the missing
  header. Section 4.1 of the spec gives its contract: the buffer holds a leading count
  field, that many account records, an instruction-data length field, the instruction
  bytes, and a trailing cluster-info record. It fails when the encoded count exceeds the
  capacity, when the buffer is too short for its declared layout, or when a length field
  would read past the end of the buffer. On success it has filled the first slots of the
  array, set the count, and produced the instruction-data slice and the cluster info.
\<close>

definition sol_deserialize :: "layout \<Rightarrow> deserializer" where
  "sol_deserialize L input ka ka_len_max =
     (case encoded_count L input of
        None \<Rightarrow> (False, nothing_written ka)
      | Some n \<Rightarrow>
          if ka_len_max < n then (False, nothing_written ka)
          else
            (case read_accounts L input n 0 (count_size L) ka of
               None \<Rightarrow> (False, nothing_written ka)
             | Some (ka', off) \<Rightarrow>
                 (case read_bytes input off (len_size L) of
                    None \<Rightarrow> (False, nothing_written ka)
                  | Some dl \<Rightarrow>
                      let d = off + len_size L; m = le_nat dl in
                      (case read_bytes input d m of
                         None \<Rightarrow> (False, nothing_written ka)
                       | Some _ \<Rightarrow>
                           (case read_bytes input (d + m) (info_size L) of
                              None \<Rightarrow> (False, nothing_written ka)
                            | Some ib \<Rightarrow>
                                (True,
                                 \<lparr>ka_out = ka', ka_len = n, data = d, data_len = m,
                                  info = \<lparr>tick_height = le_nat ib\<rparr>\<rparr>))))))"

text \<open>
  A layout to run the model on: 8-byte count, balance and length fields, one flag byte,
  32-byte keys, inline data padded to a multiple of 8 bytes, and an 8-byte cluster-info
  record.
\<close>

definition example_layout :: layout where
  "example_layout =
     \<lparr>count_size = 8, flags_size = 1, key_size = 32, balance_size = 8, len_size = 8,
      padding = (\<lambda>off n. (8 - n mod 8) mod 8), info_size = 8\<rparr>"

text \<open>
  Two buffers in that layout. The first encodes zero accounts, an instruction-data length
  of zero, and tick height 7. The second encodes two accounts whose fields are all zero
  (81 bytes each, no inline data), an instruction-data length of zero, and tick height 0.
\<close>

definition zero_account_input :: "uint8_t list" where
  "zero_account_input = replicate 8 0 @ replicate 8 0 @ [7, 0, 0, 0, 0, 0, 0, 0]"

definition two_account_input :: "uint8_t list" where
  "two_account_input = [2, 0, 0, 0, 0, 0, 0, 0] @ replicate 178 0"

section \<open>Order of the calls\<close>

text \<open>
  A list of calls in which every call of a logger (\<^verbatim>\<open>sol_log\<close>,
  \<^verbatim>\<open>sol_log_64\<close>, \<^verbatim>\<open>sol_log_params\<close>) comes after a call of
  \<^verbatim>\<open>sol_deserialize\<close> that returned true.
\<close>

fun logs_only_after_success :: "event list \<Rightarrow> bool" where
  "logs_only_after_success [] = True"
| "logs_only_after_success (SolDeserialize c ok # t) = (ok \<or> logs_only_after_success t)"
| "logs_only_after_success (e # t) = False"

section \<open>Lemmas on the modelled deserializer\<close>

lemma le_nat_zeros: "le_nat (replicate n 0) = 0"
  by (induction n) simp_all

lemma read_accounts_length:
  "read_accounts L buf n i off ka = Some (ka', off') \<Longrightarrow> length ka' = length ka"
proof (induction n arbitrary: i off ka)
  case 0
  then show ?case by simp
next
  case (Suc n)
  then show ?case by (auto split: option.splits)
qed

text \<open>The loop writes slots \<open>i, ..., i + n - 1\<close> and no slot after them.\<close>

lemma read_accounts_untouched:
  "read_accounts L buf n i off ka = Some (ka', off') \<Longrightarrow>
   drop (i + n) ka' = drop (i + n) ka"
proof (induction n arbitrary: i off ka)
  case 0
  then show ?case by simp
next
  case (Suc n)
  from Suc.prems obtain a o1 where
    step: "read_accounts L buf n (Suc i) o1 (ka[i := Some a]) = Some (ka', off')"
    by (auto split: option.splits)
  from Suc.IH [OF step] show ?case by simp
qed

lemma sol_deserialize_over_capacity:
  "encoded_count L input = Some n \<Longrightarrow> cap < n \<Longrightarrow>
   \<not> fst (sol_deserialize L input ka cap)"
  by (simp add: sol_deserialize_def)

lemma sol_deserialize_success:
  assumes "fst (sol_deserialize L input ka cap)"
  obtains n ka' off where
    "encoded_count L input = Some n" "n \<le> cap"
    "read_accounts L input n 0 (count_size L) ka = Some (ka', off)"
    "ka_out (snd (sol_deserialize L input ka cap)) = ka'"
    "ka_len (snd (sol_deserialize L input ka cap)) = n"
  using assms
  by (auto simp: sol_deserialize_def Let_def split: option.splits if_splits)

lemma encoded_count_two_account_input:
  "encoded_count example_layout two_account_input = Some 2"
  by code_simp

lemma sol_deserialize_empty_fails:
  "\<not> fst (sol_deserialize example_layout [] [None] 1)"
  by (simp add: sol_deserialize_def encoded_count_def read_bytes_def example_layout_def)

section \<open>Properties of the entrypoint\<close>

text \<open>
  C1. The entrypoint returns a boolean to the host, and for every input buffer that
  boolean is the one \<^verbatim>\<open>sol_deserialize\<close> returned for the call the entrypoint
  makes (the buffer, the one-slot array, capacity 1): true exactly when deserialization
  succeeds, false exactly when it fails. This holds for every implementation of the
  deserializer.
\<close>

theorem entrypoint_returns_deserialize_result:
  "snd (entrypoint deserialize input) = fst (deserialize input [None] 1)"
  by (simp add: entrypoint_def SOL_ARRAY_SIZE_def Let_def split: prod.split)

text \<open>
  C6. For every input buffer on which deserialization fails, the failure ends the
  invocation: the entrypoint has called \<^verbatim>\<open>sol_log(__FILE__)\<close> (before
  deserialization started) and \<^verbatim>\<open>sol_deserialize\<close> once, and it returns false.
  It calls neither \<^verbatim>\<open>sol_log_64\<close> nor \<^verbatim>\<open>sol_log_params\<close>, it does not call
  \<^verbatim>\<open>sol_deserialize\<close> again, and it does nothing after the failed call.
\<close>

theorem entrypoint_failure_is_terminal:
  assumes "\<not> fst (deserialize input [None] 1)"
  shows "entrypoint deserialize input = ([SolLog FILE, SolDeserialize 1 False], False)"
  using assms by (simp add: entrypoint_def SOL_ARRAY_SIZE_def Let_def case_prod_beta)

text \<open>The empty buffer: the modelled deserializer fails on it.\<close>

theorem entrypoint_failure_is_terminal_witness:
  "\<not> fst (sol_deserialize example_layout [] [None] 1) \<and>
   entrypoint (sol_deserialize example_layout) [] =
     ([SolLog FILE, SolDeserialize 1 False], False)"
  using entrypoint_failure_is_terminal [of "sol_deserialize example_layout" "[]"]
    sol_deserialize_empty_fails
  by simp

text \<open>
  C7, as the spec states it: in every invocation the logging collaborator is called only
  after \<^verbatim>\<open>sol_deserialize\<close> has succeeded. The entrypoint does not do that: its
  first statement is \<^verbatim>\<open>sol_log(__FILE__)\<close>, before \<^verbatim>\<open>sol_deserialize\<close> is
  called. On the empty buffer a log line is emitted and deserialization never succeeds;
  on the buffer with zero accounts the same log line precedes the successful call.
\<close>

theorem logging_only_after_success_counterexample:
  "\<not> logs_only_after_success (fst (entrypoint (sol_deserialize example_layout) [])) \<and>
   \<not> logs_only_after_success
       (fst (entrypoint (sol_deserialize example_layout) zero_account_input))"
  by code_simp

text \<open>
  C7, amended. In every invocation, \<^verbatim>\<open>sol_log(__FILE__)\<close> is the first call the
  entrypoint makes, before \<^verbatim>\<open>sol_deserialize\<close> and whatever its result; every
  other call of a logger (\<^verbatim>\<open>sol_log_64\<close>, \<^verbatim>\<open>sol_log_params\<close>) comes after
  \<^verbatim>\<open>sol_deserialize\<close> has returned true.
\<close>

theorem file_name_logged_first_then_logs_only_after_success:
  "fst (entrypoint deserialize input) =
     SolLog FILE # tl (fst (entrypoint deserialize input)) \<and>
   logs_only_after_success (tl (fst (entrypoint deserialize input)))"
  by (simp add: entrypoint_def SOL_ARRAY_SIZE_def Let_def split: prod.split)

text \<open>
  C10. The destination array of the entrypoint has exactly one slot and the entrypoint
  passes capacity 1. So for every deserializer that fails whenever the buffer encodes
  more accounts than the capacity it is given, and every input buffer that encodes two or
  more accounts, the entrypoint returns false (after \<^verbatim>\<open>sol_log(__FILE__)\<close> and the
  one failed call with capacity 1), whatever else the buffer holds.
\<close>

theorem entrypoint_rejects_two_or_more_accounts:
  assumes "encoded_count L input = Some n" and "2 \<le> n"
    and "\<forall>inp ka cap m. encoded_count L inp = Some m \<and> cap < m \<longrightarrow>
           \<not> fst (deserialize inp ka cap)"
  shows "entrypoint deserialize input = ([SolLog FILE, SolDeserialize 1 False], False)"
proof -
  from assms(1,2) have "encoded_count L input = Some n \<and> 1 < n" by simp
  with assms(3) have "\<not> fst (deserialize input [None] 1)" by blast
  then show ?thesis
    by (simp add: entrypoint_def SOL_ARRAY_SIZE_def Let_def case_prod_beta)
qed

text \<open>
  The well-formed buffer with two accounts, and the modelled deserializer, which keeps
  the capacity contract.
\<close>

theorem entrypoint_rejects_two_or_more_accounts_witness:
  "encoded_count example_layout two_account_input = Some 2 \<and>
   entrypoint (sol_deserialize example_layout) two_account_input =
     ([SolLog FILE, SolDeserialize 1 False], False)"
proof -
  have c: "\<forall>inp ka cap m. encoded_count example_layout inp = Some m \<and> cap < m \<longrightarrow>
      \<not> fst (sol_deserialize example_layout inp ka cap)"
    by (simp add: sol_deserialize_over_capacity)
  from entrypoint_rejects_two_or_more_accounts [OF encoded_count_two_account_input _ c]
    encoded_count_two_account_input
  show ?thesis by simp
qed

section \<open>Properties of the modelled deserializer\<close>

text \<open>
  C2. For every input buffer, destination array and capacity: when deserialization
  succeeds, the count it reports is at most the capacity and is the count the buffer
  encodes (nothing is truncated), the array has kept its length, and the slots from the
  reported count on are as the caller left them (nothing is written past the accounts
  parsed). When the buffer encodes more accounts than the capacity, deserialization
  fails.
\<close>

theorem sol_deserialize_respects_capacity:
  "(fst (sol_deserialize L input ka cap) \<longrightarrow>
      ka_len (snd (sol_deserialize L input ka cap)) \<le> cap \<and>
      encoded_count L input = Some (ka_len (snd (sol_deserialize L input ka cap))) \<and>
      length (ka_out (snd (sol_deserialize L input ka cap))) = length ka \<and>
      drop (ka_len (snd (sol_deserialize L input ka cap)))
           (ka_out (snd (sol_deserialize L input ka cap))) =
        drop (ka_len (snd (sol_deserialize L input ka cap))) ka) \<and>
   (\<forall>n. encoded_count L input = Some n \<and> cap < n \<longrightarrow>
      \<not> fst (sol_deserialize L input ka cap))"
proof (intro conjI impI allI)
  assume ok: "fst (sol_deserialize L input ka cap)"
  then obtain n ka' off where
    n: "encoded_count L input = Some n" "n \<le> cap" and
    r: "read_accounts L input n 0 (count_size L) ka = Some (ka', off)" and
    o: "ka_out (snd (sol_deserialize L input ka cap)) = ka'"
       "ka_len (snd (sol_deserialize L input ka cap)) = n"
    by (rule sol_deserialize_success)
  show "ka_len (snd (sol_deserialize L input ka cap)) \<le> cap"
    using n o by simp
  show "encoded_count L input = Some (ka_len (snd (sol_deserialize L input ka cap)))"
    using n o by simp
  show "length (ka_out (snd (sol_deserialize L input ka cap))) = length ka"
    using read_accounts_length [OF r] o by simp
  show "drop (ka_len (snd (sol_deserialize L input ka cap)))
           (ka_out (snd (sol_deserialize L input ka cap))) =
        drop (ka_len (snd (sol_deserialize L input ka cap))) ka"
    using read_accounts_untouched [OF r] o by simp
next
  fix n assume "encoded_count L input = Some n \<and> cap < n"
  then show "\<not> fst (sol_deserialize L input ka cap)"
    by (simp add: sol_deserialize_over_capacity)
qed

text \<open>
  The buffer with two accounts: with capacity 2 deserialization succeeds and reports 2;
  with capacity 1 it fails.
\<close>

theorem sol_deserialize_respects_capacity_witness:
  "fst (sol_deserialize example_layout two_account_input [None, None] 2) \<and>
   ka_len (snd (sol_deserialize example_layout two_account_input [None, None] 2)) = 2 \<and>
   encoded_count example_layout two_account_input = Some 2 \<and>
   \<not> fst (sol_deserialize example_layout two_account_input [None] 1)"
proof -
  have ok: "fst (sol_deserialize example_layout two_account_input [None, None] 2)"
    by code_simp
  note ec = encoded_count_two_account_input
  have len: "ka_len (snd (sol_deserialize example_layout two_account_input [None, None] 2)) = 2"
    using sol_deserialize_respects_capacity
      [of example_layout two_account_input "[None, None]" 2] ok ec
    by simp
  have "\<not> fst (sol_deserialize example_layout two_account_input [None] 1)"
    using sol_deserialize_respects_capacity
      [of example_layout two_account_input "[None]" 1] ec
    by simp
  with ok ec len show ?thesis by simp
qed

text \<open>
  C8. For the input buffer that encodes zero accounts and an instruction-data length of
  zero (a zero count field, a zero length field, and the cluster-info record), in every
  layout: deserialization succeeds, the reported account count is zero and no slot of the
  array is written, the instruction-data slice is empty, the cluster info is the one in
  the buffer; and the entrypoint returns true.
\<close>

theorem zero_accounts_zero_data_succeeds:
  assumes "length ib = info_size L"
  shows "sol_deserialize L (replicate (count_size L) 0 @ replicate (len_size L) 0 @ ib) ka cap =
           (True, \<lparr>ka_out = ka, ka_len = 0, data = count_size L + len_size L, data_len = 0,
                   info = \<lparr>tick_height = le_nat ib\<rparr>\<rparr>) \<and>
         snd (entrypoint (sol_deserialize L)
               (replicate (count_size L) 0 @ replicate (len_size L) 0 @ ib))"
proof -
  have d: "sol_deserialize L (replicate (count_size L) 0 @ replicate (len_size L) 0 @ ib) ka' cap' =
           (True, \<lparr>ka_out = ka', ka_len = 0, data = count_size L + len_size L, data_len = 0,
                   info = \<lparr>tick_height = le_nat ib\<rparr>\<rparr>)" for ka' cap'
    using assms
    by (simp add: sol_deserialize_def encoded_count_def read_bytes_def le_nat_zeros Let_def)
  show ?thesis
    by (simp add: d entrypoint_def SOL_ARRAY_SIZE_def Let_def)
qed

text \<open>
  In the example layout, with tick height 7: the entrypoint logs its file name,
  deserializes, logs the tick height and the (empty) parameters, and returns true.
\<close>

theorem zero_accounts_zero_data_succeeds_witness:
  "sol_deserialize example_layout zero_account_input [None] 1 =
     (True, \<lparr>ka_out = [None], ka_len = 0, data = 16, data_len = 0,
             info = \<lparr>tick_height = 7\<rparr>\<rparr>) \<and>
   entrypoint (sol_deserialize example_layout) zero_account_input =
     ([SolLog FILE, SolDeserialize 1 True, SolLog64 7 0 0 0 0, SolLogParams [None] 0 16 0],
      True)"
proof -
  have l: "length [7, 0, 0, 0, 0, 0, 0, 0 :: uint8_t] = info_size example_layout"
    by (simp add: example_layout_def)
  have z: "replicate (count_size example_layout) 0 @ replicate (len_size example_layout) 0 @
             [7, 0, 0, 0, 0, 0, 0, 0 :: uint8_t] = zero_account_input"
    by (simp add: example_layout_def zero_account_input_def)
  have d: "sol_deserialize example_layout zero_account_input [None] 1 =
     (True, \<lparr>ka_out = [None], ka_len = 0, data = 16, data_len = 0,
             info = \<lparr>tick_height = 7\<rparr>\<rparr>)"
    using zero_accounts_zero_data_succeeds [OF l, of "[None]" 1]
    by (simp add: z) (simp add: example_layout_def)
  then show ?thesis
    by (simp add: entrypoint_def SOL_ARRAY_SIZE_def Let_def)
qed

end
